theory Spec2Isabelle
  imports Complex_Main "HOL-Library.AList"
begin

section \<open>JavaScript values\<close>

text \<open>
  The invoice workflow of \<^verbatim>\<open>src/routes/invoices.js\<close> works on the JSON body of a request and
  on documents of the store. A value is one of JavaScript's: \<open>undefined\<close> (what reading an
  absent key gives), \<open>null\<close>, a boolean, a number, a string, an array or a plain object.
  Numbers are JavaScript's doubles in the source; here a finite number is a real, so
  arithmetic is exact and only \<open>Math.round\<close> and \<open>Math.floor\<close> round. The non-finite
  results of a conversion (\<open>NaN\<close>, \<open>Infinity\<close>, \<open>-Infinity\<close>) are \<open>None\<close>: the source
  tells them from the finite ones with \<open>Number.isFinite\<close> and never from each other.
  Strings are byte strings.
\<close>

datatype json =
    Undefined
  | Null
  | Bool bool
  | Num real
  | Str string
  | Arr "json list"
  | Obj "(string \<times> json) list"

text \<open>
  The operations of the platform that the source calls and that have no counterpart on
  reals and byte strings are parameters of the model: reading a number from a string
  (\<open>Number("12")\<close>), printing a number (\<open>String(12)\<close>, template literals), \<open>toFixed(2)\<close>,
  \<open>toUpperCase\<close>, and mongoose's cast of a value that is not a string to an ObjectId with
  the message of its \<open>CastError\<close>. Every property below is proved for all of them.
\<close>

record platform =
  StringToNumber :: "string \<Rightarrow> real option"
  NumberToString :: "real \<Rightarrow> string"
  toFixed2 :: "real \<Rightarrow> string"
  toUpperCase :: "string \<Rightarrow> string"
  castOther :: "json \<Rightarrow> string option"
  castErrorMessage :: "json \<Rightarrow> string"

text \<open>\<open>value.key\<close> on a value that is not \<open>null\<close> or \<open>undefined\<close>. None of the keys the
  source reads is a property of a string, a number, a boolean or an array. The keys of an
  object are distinct. Where the source guards a read with \<open>&&\<close> or \<open>?.\<close>, the read of
  a key of \<open>null\<close> or \<open>undefined\<close> is \<open>undefined\<close> here and the guard discards it.\<close>

fun get :: "json \<Rightarrow> string \<Rightarrow> json" where
  "get (Obj kvs) k = (case map_of kvs k of Some v \<Rightarrow> v | None \<Rightarrow> Undefined)"
| "get _ k = Undefined"

text \<open>Truthiness, \<open>a || b\<close>, \<open>a && b\<close> and \<open>a ?? b\<close>.\<close>

fun truthy :: "json \<Rightarrow> bool" where
  "truthy Undefined = False"
| "truthy Null = False"
| "truthy (Bool b) = b"
| "truthy (Num r) = (r \<noteq> 0)"
| "truthy (Str s) = (s \<noteq> [])"
| "truthy (Arr xs) = True"
| "truthy (Obj kvs) = True"

definition or_js :: "json \<Rightarrow> json \<Rightarrow> json" where
  "or_js a b = (if truthy a then a else b)"

definition and_js :: "json \<Rightarrow> json \<Rightarrow> json" where
  "and_js a b = (if truthy a then b else a)"

definition nullish :: "json \<Rightarrow> json \<Rightarrow> json" where
  "nullish a b = (if a = Undefined \<or> a = Null then b else a)"

text \<open>\<open>Array.prototype.join\<close> on strings.\<close>

fun join_js :: "string \<Rightarrow> string list \<Rightarrow> string" where
  "join_js sep [] = []"
| "join_js sep [x] = x"
| "join_js sep (x # y # ys) = x @ sep @ join_js sep (y # ys)"

text \<open>\<open>String(value)\<close>: an array prints its elements joined by commas, \<open>null\<close> and
  \<open>undefined\<close> elements as the empty string; a plain object prints as
  \<open>[object Object]\<close>.\<close>

fun String_js :: "platform \<Rightarrow> json \<Rightarrow> string" where
  "String_js P Undefined = ''undefined''"
| "String_js P Null = ''null''"
| "String_js P (Bool b) = (if b then ''true'' else ''false'')"
| "String_js P (Num r) = NumberToString P r"
| "String_js P (Str s) = s"
| "String_js P (Arr xs) =
     join_js '','' (map (\<lambda>x. if x = Undefined \<or> x = Null then [] else String_js P x) xs)"
| "String_js P (Obj kvs) = ''[object Object]''"

text \<open>\<open>Number(value)\<close>, \<open>None\<close> when the result is not finite. An array or an object is
  converted through its string.\<close>

fun Number_js :: "platform \<Rightarrow> json \<Rightarrow> real option" where
  "Number_js P Undefined = None"
| "Number_js P Null = Some 0"
| "Number_js P (Bool b) = Some (if b then 1 else 0)"
| "Number_js P (Num r) = Some r"
| "Number_js P (Str s) = StringToNumber P s"
| "Number_js P (Arr xs) = StringToNumber P (String_js P (Arr xs))"
| "Number_js P (Obj kvs) = StringToNumber P (String_js P (Obj kvs))"

text \<open>\<open>toNumber(value, fallback)\<close>: the number when it is finite, the fallback otherwise.
  The source passes \<open>NaN\<close> or a finite number as the fallback; \<open>None\<close> is \<open>NaN\<close>.\<close>

definition toNumber :: "platform \<Rightarrow> json \<Rightarrow> real option \<Rightarrow> real option" where
  "toNumber P v fallback = (case Number_js P v of Some num \<Rightarrow> Some num | None \<Rightarrow> fallback)"

text \<open>\<open>toNumber(value, 0)\<close>, whose result is always a finite number.\<close>

definition toNumber0 :: "platform \<Rightarrow> json \<Rightarrow> real" where
  "toNumber0 P v = (case toNumber P v (Some 0) of Some num \<Rightarrow> num | None \<Rightarrow> 0)"

text \<open>\<open>String.prototype.trim\<close> on the ASCII white space.\<close>

definition is_space :: "char \<Rightarrow> bool" where
  "is_space c = (c \<in> set [CHR '' '', CHR 0x09, CHR 0x0A, CHR 0x0B, CHR 0x0C, CHR 0x0D])"

definition trim :: "string \<Rightarrow> string" where
  "trim s = rev (dropWhile is_space (rev (dropWhile is_space s)))"

text \<open>\<open>Math.round(value * 100) / 100\<close>; \<open>Math.round\<close> rounds a half up.\<close>

definition roundMoney :: "real \<Rightarrow> real" where
  "roundMoney v = of_int \<lfloor>v * 100 + 1 / 2\<rfloor> / 100"


section \<open>The order sequence\<close>

text \<open>
  \<^verbatim>\<open>getNextOrderId\<close> of the Order model. The \<open>order-id\<close> document of the Sequence
  collection is \<open>None\<close> while it does not exist, else \<open>Some value\<close>. The first
  \<open>findOneAndUpdate\<close> increments the value and, with \<open>upsert\<close>, creates the document
  when it is absent: the increment then applies to a missing field, which gives 1 (the
  schema's default 29 is not set on a path the update itself modifies). A value below 30
  is overwritten with 30 by the second \<open>findOneAndUpdate\<close>, whose result is returned.
  The function returns the identifier and the counter it leaves.
\<close>

definition inc_upsert :: "int option \<Rightarrow> int" where
  "inc_upsert c = (case c of None \<Rightarrow> 1 | Some v \<Rightarrow> v + 1)"

definition getNextOrderId :: "int option \<Rightarrow> int \<times> int option" where
  "getNextOrderId c =
     (let updated = inc_upsert c
      in if updated < 30 then (30, Some 30) else (updated, Some updated))"

text \<open>A run of \<open>n\<close> allocations one after the other: the identifiers in the order they
  were handed out.\<close>

fun allocations :: "nat \<Rightarrow> int option \<Rightarrow> int list" where
  "allocations 0 c = []"
| "allocations (Suc n) c = (case getNextOrderId c of (v, c') \<Rightarrow> v # allocations n c')"


section \<open>Item validator\<close>

text \<open>\<open>mongoose.Types.ObjectId.isValid\<close> on a string: 24 hexadecimal digits. \<open>new
  ObjectId(s)\<close> of such a string prints in lower case (\<open>toString()\<close>), which is how a
  document's \<open>_id\<close> is keyed in the store and in the route's \<open>productMap\<close>.\<close>

definition is_hex :: "char \<Rightarrow> bool" where
  "is_hex c = (c \<in> set ''0123456789abcdefABCDEF'')"

definition isValidObjectId :: "string \<Rightarrow> bool" where
  "isValidObjectId s = (length s = 24 \<and> list_all is_hex s)"

definition hex_lower :: "char \<Rightarrow> char" where
  "hex_lower c =
     (if c = CHR ''A'' then CHR ''a'' else if c = CHR ''B'' then CHR ''b''
      else if c = CHR ''C'' then CHR ''c'' else if c = CHR ''D'' then CHR ''d''
      else if c = CHR ''E'' then CHR ''e'' else if c = CHR ''F'' then CHR ''f'' else c)"

definition ObjectId :: "string \<Rightarrow> string" where
  "ObjectId s = map hex_lower s"

text \<open>A canonical line item: \<open>{ productId, quantity: Math.floor(quantity) }\<close>.\<close>

record item =
  productId :: string
  quantity :: int

text \<open>The two values \<^verbatim>\<open>sanitizeItems\<close> computes for an entry before it checks them:
  the trimmed product reference, read from the first truthy alias, and the quantity as
  \<open>toNumber(..., NaN)\<close>. An entry that is not an object has none of the keys.\<close>

definition item_productId :: "platform \<Rightarrow> json \<Rightarrow> string" where
  "item_productId P entry =
     (let rawId = and_js entry
            (or_js (or_js (or_js (get entry ''productId'') (get entry ''id''))
               (get entry ''_id'')) (get entry ''codigo''))
      in if truthy rawId then trim (String_js P rawId) else [])"

definition item_quantity :: "platform \<Rightarrow> json \<Rightarrow> real option" where
  "item_quantity P entry =
     toNumber P (and_js entry (nullish (get entry ''quantity'') (get entry ''cantidad''))) None"

text \<open>The body of the loop of \<^verbatim>\<open>sanitizeItems\<close>: the error message of the first check
  that fails, or the canonical item.\<close>

definition sanitize_item :: "platform \<Rightarrow> json \<Rightarrow> string + item" where
  "sanitize_item P entry =
     (let pid = item_productId P entry; qty = item_quantity P entry
      in if pid = [] then Inl ''Each item must include productId''
         else if \<not> isValidObjectId pid then Inl (''Invalid productId format: '' @ pid)
         else (case qty of
                 None \<Rightarrow> Inl (''Invalid quantity for product '' @ pid)
               | Some q \<Rightarrow>
                   if q \<le> 0 then Inl (''Invalid quantity for product '' @ pid)
                   else Inr \<lparr>productId = pid, quantity = \<lfloor>q\<rfloor>\<rparr>))"

fun sanitize_loop :: "platform \<Rightarrow> json list \<Rightarrow> string + item list" where
  "sanitize_loop P [] = Inr []"
| "sanitize_loop P (entry # rest) =
     (case sanitize_item P entry of
        Inl e \<Rightarrow> Inl e
      | Inr it \<Rightarrow>
          (case sanitize_loop P rest of Inl e \<Rightarrow> Inl e | Inr its \<Rightarrow> Inr (it # its)))"

text \<open>\<^verbatim>\<open>sanitizeItems(products = [])\<close>: an absent argument is the empty array.\<close>

definition sanitizeItems :: "platform \<Rightarrow> json \<Rightarrow> string + item list" where
  "sanitizeItems P products_arg =
     (case (if products_arg = Undefined then Arr [] else products_arg) of
        Arr entries \<Rightarrow>
          if entries = [] then Inl ''products array is required''
          else sanitize_loop P entries
      | _ \<Rightarrow> Inl ''products array is required'')"


section \<open>Pricing\<close>

text \<open>The shipping constants are read from the environment, with defaults.\<close>

record config =
  BASE_SHIPPING_FEE :: real
  PER_ITEM_SHIPPING_FEE :: real
  MAX_SHIPPING_FEE :: real

definition DEFAULT_CONFIG :: config where
  "DEFAULT_CONFIG =
     \<lparr>BASE_SHIPPING_FEE = 35 / 10, PER_ITEM_SHIPPING_FEE = 5 / 10, MAX_SHIPPING_FEE = 20\<rparr>"

definition DEFAULT_TAX_RATE :: real where
  "DEFAULT_TAX_RATE = 15 / 100"

definition DEFAULT_CURRENCY :: string where
  "DEFAULT_CURRENCY = ''USD''"

text \<open>\<^verbatim>\<open>calculateShippingCost\<close>. The manual cost is
  \<open>toNumber(costo ?? cost ?? shippingFee ?? null, NaN)\<close>; the units are summed with
  \<open>reduce\<close> from 0.\<close>

definition manualCost :: "platform \<Rightarrow> json \<Rightarrow> real option" where
  "manualCost P shippingSource =
     toNumber P
       (nullish (nullish (nullish (get shippingSource ''costo'') (get shippingSource ''cost''))
          (get shippingSource ''shippingFee'')) Null)
       None"

definition computedShipping :: "config \<Rightarrow> item list \<Rightarrow> real" where
  "computedShipping C items =
     (let totalUnits = foldl (\<lambda>sum it. sum + quantity it) 0 items;
          incremental = max 0 (of_int totalUnits - 1) * PER_ITEM_SHIPPING_FEE C;
          computed = BASE_SHIPPING_FEE C + incremental
      in roundMoney (min (MAX_SHIPPING_FEE C) computed))"

definition calculateShippingCost :: "platform \<Rightarrow> config \<Rightarrow> json \<Rightarrow> item list \<Rightarrow> real" where
  "calculateShippingCost P C shippingSource items =
     (case manualCost P shippingSource of
        Some m \<Rightarrow> if m \<ge> 0 then roundMoney m else computedShipping C items
      | None \<Rightarrow> computedShipping C items)"

text \<open>The prices of a line, as the checkout loop computes them.\<close>

definition priceAfterDiscount :: "real \<Rightarrow> real \<Rightarrow> real" where
  "priceAfterDiscount basePrice discountPct = roundMoney (basePrice * (1 - discountPct / 100))"

definition lineTotal :: "real \<Rightarrow> real \<Rightarrow> int \<Rightarrow> real" where
  "lineTotal basePrice discountPct qty =
     roundMoney (priceAfterDiscount basePrice discountPct * of_int qty)"

definition taxes_of :: "real \<Rightarrow> real \<Rightarrow> real" where
  "taxes_of subtotal useTaxRate = roundMoney (subtotal * useTaxRate)"

definition total_of :: "real \<Rightarrow> real \<Rightarrow> real \<Rightarrow> real \<Rightarrow> real" where
  "total_of subtotal taxes shippingCost discountValue =
     roundMoney (max 0 (subtotal + taxes + shippingCost - discountValue))"


section \<open>The store and the world\<close>

text \<open>Modelled from the spec: the Product model (\<^verbatim>\<open>models/Product.js\<close>) is not among the
  sources. A product has a display name, a unit price, a discount percentage and an
  available stock; its identifier is its key in the collection. The fields are kept as
  JavaScript values, since the route reads each of them through \<open>toNumber(..., 0)\<close> or
  \<open>||\<close>.\<close>

record product =
  p_nombre :: json
  p_precio :: json
  p_descuento :: json
  p_stock :: json

text \<open>
  The collections the workflow touches. Products and users are keyed by the lower-case
  hexadecimal print of their \<open>_id\<close>; a user and an order are the plain documents. The
  sequence is the value of the \<open>order-id\<close> counter, if the document exists.
\<close>

record state =
  products :: "string \<rightharpoonup> product"
  orders :: "json list"
  users :: "string \<rightharpoonup> json"
  sequence :: "int option"

text \<open>What the handler takes from outside the request and the store: the clock, the random
  suffix, the \<open>_id\<close> mongoose gives the new order, and the operations of the driver that
  throw. A failing operation throws an error that the handler's \<open>catch\<close> turns into a
  status (\<open>err.status\<close>, 400 for a \<open>ValidationError\<close>, else 500) and a message.\<close>

datatype operation =
    StartSession
  | FindUser
  | FindProducts
  | SaveProduct string
  | NextOrderId
  | SaveOrder
  | FindUserForUpdate
  | SaveUser
  | Commit

type_synonym failure = "nat \<times> string"

record world =
  date_now :: real
  random1000 :: nat
  new_date :: json
  iso_now :: string
  new_oid :: string
  fails :: "operation \<Rightarrow> failure option"

datatype response =
    Error nat string
  | is_Created: Created json json


section \<open>Checkout\<close>

text \<open>\<open>Math.floor(Math.random() * 1000).toString().padStart(3, '0')\<close> and
  \<^verbatim>\<open>buildInvoiceNumber\<close>.\<close>

definition padStart3 :: "string \<Rightarrow> string" where
  "padStart3 s = replicate (3 - length s) (CHR ''0'') @ s"

definition buildInvoiceNumber :: "platform \<Rightarrow> world \<Rightarrow> string" where
  "buildInvoiceNumber P W =
     ''INV-'' @ NumberToString P (date_now W) @ ''-''
       @ padStart3 (NumberToString P (of_nat (random1000 W)))"

definition pickUserFields :: "platform \<Rightarrow> json \<Rightarrow> json" where
  "pickUserFields P userDoc =
     (if \<not> truthy userDoc then Null
      else Obj
        [(''id'', if truthy (get userDoc ''_id'') then Str (String_js P (get userDoc ''_id''))
                  else or_js (get userDoc ''id'') Undefined),
         (''nombre'', or_js (or_js (or_js (get userDoc ''nombre'') (get userDoc ''firstName''))
                        (get userDoc ''name'')) (Str [])),
         (''apellido'', or_js (or_js (get userDoc ''apellido'') (get userDoc ''lastName'')) (Str [])),
         (''email'', or_js (get userDoc ''email'') (Str [])),
         (''telefono'', or_js (or_js (get userDoc ''telefono'') (get userDoc ''phone'')) (Str [])),
         (''cedula'', or_js (or_js (get userDoc ''cedula'') (get userDoc ''document'')) (Str []))])"

text \<open>\<open>User.findById(body.userId)\<close> casts the reference to an ObjectId first; a value
  that does not cast makes the query throw a \<open>CastError\<close>.\<close>

definition castObjectId :: "platform \<Rightarrow> json \<Rightarrow> string option" where
  "castObjectId P v =
     (case v of
        Str s \<Rightarrow> if isValidObjectId s then Some (ObjectId s) else None
      | _ \<Rightarrow> castOther P v)"

text \<open>The buyer: the attached user's key (if the request names a user) and the snapshot
  for the invoice.\<close>

definition resolve_buyer ::
  "platform \<Rightarrow> world \<Rightarrow> json \<Rightarrow> state \<Rightarrow> failure + (string option \<times> json)" where
  "resolve_buyer P W body s =
     (if truthy (get body ''userId'') then
        (case fails W FindUser of
           Some e \<Rightarrow> Inl e
         | None \<Rightarrow>
            (case castObjectId P (get body ''userId'') of
               None \<Rightarrow> Inl (500, castErrorMessage P (get body ''userId''))
             | Some uid \<Rightarrow>
                (case users s uid of
                   None \<Rightarrow> Inl (404, ''User not found'')
                 | Some attachedUser \<Rightarrow> Inr (Some uid, pickUserFields P attachedUser))))
      else if truthy (and_js (and_js (get body ''user'') (get (get body ''user'') ''email''))
                 (or_js (or_js (get (get body ''user'') ''nombre'')
                    (get (get body ''user'') ''firstName'')) (get (get body ''user'') ''name'')))
      then Inr (None, pickUserFields P (get body ''user''))
      else Inl (400, ''Provide userId or user object with nombre and email''))"

definition shippingInfo_of :: "json \<Rightarrow> json \<Rightarrow> real \<Rightarrow> json" where
  "shippingInfo_of body shippingSource shippingCost =
     Obj
       [(''direccion'', or_js (or_js (get shippingSource ''direccion'') (get shippingSource ''address'')) (Str [])),
        (''referencias'', or_js (or_js (get shippingSource ''referencias'') (get shippingSource ''reference'')) (Str [])),
        (''contacto'', or_js (or_js (get shippingSource ''contacto'') (get shippingSource ''contact'')) (Str [])),
        (''instrucciones'', or_js (or_js (or_js (get shippingSource ''instrucciones'')
            (get shippingSource ''instructions'')) (get body ''comentarios'')) (Str [])),
        (''fechaEstimada'', or_js (get shippingSource ''fechaEstimada'') Null),
        (''location'', or_js (or_js (get shippingSource ''location'') (get shippingSource ''latLong'')) Null),
        (''costo'', Num shippingCost)]"

definition discountValue_of :: "platform \<Rightarrow> json \<Rightarrow> real" where
  "discountValue_of P body =
     max 0 (roundMoney (toNumber0 P
       (nullish (nullish (get body ''discount'') (get (get body ''totals'') ''discount'')) (Num 0))))"

definition paymentInfo_of :: "json \<Rightarrow> json \<Rightarrow> json" where
  "paymentInfo_of body paymentSource =
     Obj
       [(''metodo'', or_js (or_js (or_js (get paymentSource ''metodo'') (get paymentSource ''method''))
            (get body ''metodoPago'')) (Str ''no-especificado'')),
        (''metodoPagoNombre'', or_js (or_js (or_js (or_js (or_js (get paymentSource ''metodoPagoNombre'')
            (get paymentSource ''methodName'')) (get paymentSource ''metodo''))
            (get paymentSource ''method'')) (get body ''metodoPago'')) (Str ''no-especificado'')),
        (''referencia'', or_js (or_js (get paymentSource ''referencia'') (get paymentSource ''reference'')) (Str [])),
        (''estado'', or_js (get paymentSource ''estado'') (Str ''pagado''))]"

text \<open>\<open>Product.find({ _id: { $in: ids } })\<close>: the documents whose \<open>_id\<close> is among the
  identifiers, each once, with their keys. The route uses only their number and the map
  built from them, so their order does not matter.\<close>

definition find_products :: "(string \<rightharpoonup> product) \<Rightarrow> string list \<Rightarrow> (string \<times> product) list" where
  "find_products store ids = List.map_filter (\<lambda>i. map_option (Pair i) (store i)) (remdups ids)"

text \<open>
  The body of the loop over the canonical items. \<open>productMap\<close> holds the documents as
  loaded, keyed by \<open>_id.toString()\<close>; \<open>product.save({ session })\<close> writes the document
  into the session's view of the collection under the same key. The result is the
  invoice line with its total, or the error thrown; the map and the state are returned
  as the step leaves them.
\<close>

definition process_line ::
  "platform \<Rightarrow> world \<Rightarrow> string \<Rightarrow> item \<Rightarrow> (string \<rightharpoonup> product) \<Rightarrow> state
     \<Rightarrow> (failure + json \<times> real) \<times> (string \<rightharpoonup> product) \<times> state" where
  "process_line P W invoiceCurrency it productMap s =
     (case productMap (productId it) of
        None \<Rightarrow> (Inl (404, ''Product '' @ productId it @ '' not found''), productMap, s)
      | Some doc \<Rightarrow>
         (let available = toNumber0 P (p_stock doc)
          in if available < of_int (quantity it)
             then (Inl (400, ''Insufficient stock for ''
                      @ String_js P (or_js (p_nombre doc) (Str (productId it)))), productMap, s)
             else
              (let saved = doc\<lparr>p_stock := Num (available - of_int (quantity it))\<rparr>;
                   productMap' = productMap(productId it \<mapsto> saved)
               in case fails W (SaveProduct (productId it)) of
                    Some e \<Rightarrow> (Inl e, productMap', s)
                  | None \<Rightarrow>
                     (let s' = s\<lparr>products := (products s)(productId it \<mapsto> saved)\<rparr>;
                          basePrice = toNumber0 P (p_precio saved);
                          discountPct = toNumber0 P (p_descuento saved);
                          unitPrice = priceAfterDiscount basePrice discountPct;
                          lineTot = lineTotal basePrice discountPct (quantity it)
                      in (Inr (Obj [(''productId'', Str (productId it)),
                                    (''nombre'', p_nombre saved),
                                    (''quantity'', Num (of_int (quantity it))),
                                    (''unitPrice'', Num unitPrice),
                                    (''currency'', Str invoiceCurrency),
                                    (''discountPercentage'', Num discountPct),
                                    (''lineTotal'', Num lineTot)], lineTot),
                          productMap', s')))))"

fun process_items ::
  "platform \<Rightarrow> world \<Rightarrow> string \<Rightarrow> item list \<Rightarrow> (string \<rightharpoonup> product) \<Rightarrow> state
     \<Rightarrow> json list \<Rightarrow> real \<Rightarrow> (failure + json list \<times> real) \<times> state" where
  "process_items P W invoiceCurrency [] productMap s invoiceItems subtotal =
     (Inr (invoiceItems, subtotal), s)"
| "process_items P W invoiceCurrency (it # rest) productMap s invoiceItems subtotal =
     (case process_line P W invoiceCurrency it productMap s of
        (Inl e, productMap', s') \<Rightarrow> (Inl e, s')
      | (Inr (line, lineTot), productMap', s') \<Rightarrow>
          process_items P W invoiceCurrency rest productMap' s'
            (invoiceItems @ [line]) (roundMoney (subtotal + lineTot)))"

definition totalsForUi :: "real \<Rightarrow> real \<Rightarrow> real \<Rightarrow> real \<Rightarrow> json" where
  "totalsForUi subtotal taxes shippingCost discountValue =
     Obj [(''subtotal'', Num subtotal),
          (''iva'', Num taxes),
          (''envio'', Num shippingCost),
          (''discount'', Num discountValue),
          (''total'', Num (total_of subtotal taxes shippingCost discountValue))]"

definition orderProducts_of :: "json list \<Rightarrow> json list" where
  "orderProducts_of invoiceItems =
     map (\<lambda>line. Obj [(''id'', get line ''productId''),
                       (''nombre'', get line ''nombre''),
                       (''cantidad'', get line ''quantity''),
                       (''precio'', get line ''unitPrice''),
                       (''subtotal'', get line ''lineTotal''),
                       (''currency'', get line ''currency'')]) invoiceItems"

definition orderItemsForDb_of :: "json list \<Rightarrow> json list" where
  "orderItemsForDb_of invoiceItems =
     map (\<lambda>line. Obj [(''productId'', get line ''productId''),
                       (''cantidad'', get line ''quantity''),
                       (''unitPrice'', get line ''unitPrice''),
                       (''lineTotal'', get line ''lineTotal''),
                       (''currency'', get line ''currency'')]) invoiceItems"

definition resumen_of :: "json \<Rightarrow> json list \<Rightarrow> json \<Rightarrow> json \<Rightarrow> json \<Rightarrow> string \<Rightarrow> json" where
  "resumen_of invoiceUser orderProducts totales shippingInfo paymentInfo invoiceNumber =
     Obj [(''cliente'', invoiceUser),
          (''productos'', Arr orderProducts),
          (''totales'', totales),
          (''entrega'', shippingInfo),
          (''pago'', paymentInfo),
          (''invoiceNumber'', Str invoiceNumber)]"

text \<open>\<open>orderDoc.save({ session })\<close>: the \<open>pre('save')\<close> hook of the Order model gives a
  new order its \<open>id\<close> from \<^verbatim>\<open>getNextOrderId\<close>, whose updates do not pass the session, and
  the document is then inserted in the session.\<close>

definition save_order ::
  "platform \<Rightarrow> world \<Rightarrow> string option \<Rightarrow> json list \<Rightarrow> json \<Rightarrow> state \<Rightarrow> (failure + json) \<times> state" where
  "save_order P W attachedUser orderItemsForDb resumen s =
     (case fails W NextOrderId of
        Some e \<Rightarrow> (Inl e, s)
      | None \<Rightarrow>
         (case getNextOrderId (sequence s) of
            (nextId, counter) \<Rightarrow>
              (let orderDoc = Obj [(''_id'', Str (new_oid W)),
                                   (''id'', Str (NumberToString P (of_int nextId))),
                                   (''userId'', (case attachedUser of Some uid \<Rightarrow> Str uid | None \<Rightarrow> Undefined)),
                                   (''items'', Arr orderItemsForDb),
                                   (''resumen'', resumen),
                                   (''estado'', Str ''confirmado''),
                                   (''fecha'', new_date W)];
                   s1 = s\<lparr>sequence := counter\<rparr>
               in case fails W SaveOrder of
                    Some e \<Rightarrow> (Inl e, s1)
                  | None \<Rightarrow> (Inr orderDoc, s1\<lparr>orders := orders s1 @ [orderDoc]\<rparr>))))"

text \<open>The update of the attached user: an entry is pushed on \<open>orders\<close> (an absent list
  starts empty; \<open>push\<close> on anything else that is truthy throws a \<open>TypeError\<close>) and the
  cart is emptied.\<close>

definition put :: "json \<Rightarrow> string \<Rightarrow> json \<Rightarrow> json" where
  "put doc k v = (case doc of Obj kvs \<Rightarrow> Obj (AList.update k v kvs) | _ \<Rightarrow> doc)"

definition update_user ::
  "world \<Rightarrow> string \<Rightarrow> json \<Rightarrow> json \<Rightarrow> state \<Rightarrow> (failure + unit) \<times> state" where
  "update_user W uid orderDoc resumen s =
     (case fails W FindUserForUpdate of
        Some e \<Rightarrow> (Inl e, s)
      | None \<Rightarrow>
         (case users s uid of
            None \<Rightarrow> (Inr (), s)
          | Some userForUpdate \<Rightarrow>
             (let entry = Obj [(''orderId'', get orderDoc ''_id''),
                               (''codigo'', get orderDoc ''id''),
                               (''fecha'', get orderDoc ''fecha''),
                               (''resumen'', resumen)]
              in case or_js (get userForUpdate ''orders'') (Arr []) of
                   Arr entries \<Rightarrow>
                     (case fails W SaveUser of
                        Some e \<Rightarrow> (Inl e, s)
                      | None \<Rightarrow>
                          (Inr (), s\<lparr>users := (users s)(uid \<mapsto>
                             put (put userForUpdate ''orders'' (Arr (entries @ [entry])))
                               ''cart'' (Arr []))\<rparr>))
                 | _ \<Rightarrow> (Inl (500, ''userForUpdate.orders.push is not a function''), s))))"

definition orderResponse_of ::
  "json \<Rightarrow> string \<Rightarrow> json \<Rightarrow> json list \<Rightarrow> json \<Rightarrow> json \<Rightarrow> json \<Rightarrow> json" where
  "orderResponse_of orderDoc invoiceNumber invoiceUser orderProducts totales shippingInfo paymentInfo =
     Obj [(''_id'', get orderDoc ''_id''),
          (''id'', get orderDoc ''id''),
          (''numeroOrden'', get orderDoc ''id''),
          (''numeroFactura'', Str invoiceNumber),
          (''fecha'', get orderDoc ''fecha''),
          (''estado'', get orderDoc ''estado''),
          (''cliente'', invoiceUser),
          (''productos'', Arr orderProducts),
          (''totales'', totales),
          (''entrega'', shippingInfo),
          (''pago'', paymentInfo)]"

definition invoicePayload_of ::
  "world \<Rightarrow> json \<Rightarrow> string \<Rightarrow> string \<Rightarrow> json \<Rightarrow> json list \<Rightarrow> real \<Rightarrow> real \<Rightarrow> real
     \<Rightarrow> real \<Rightarrow> real \<Rightarrow> json" where
  "invoicePayload_of W orderDoc invoiceNumber invoiceCurrency invoiceUser invoiceItems
       subtotal useTaxRate taxes shippingCost discountValue =
     Obj [(''invoiceNumber'', Str invoiceNumber),
          (''issuedAt'', Str (iso_now W)),
          (''currency'', Str invoiceCurrency),
          (''user'', invoiceUser),
          (''items'', Arr invoiceItems),
          (''totals'', Obj [(''subtotal'', Num subtotal),
                           (''taxRate'', Num useTaxRate),
                           (''taxes'', Num taxes),
                           (''shipping'', Num shippingCost),
                           (''discount'', Num discountValue),
                           (''total'', Num (total_of subtotal taxes shippingCost discountValue))]),
          (''orderId'', get orderDoc ''_id''),
          (''orderCode'', get orderDoc ''id'')]"

text \<open>
  The callback of \<open>session.withTransaction\<close>. It returns the state as the session sees it
  when the callback ends, also when it throws: the writes made so far are in it.
\<close>

definition invoice_txn ::
  "platform \<Rightarrow> world \<Rightarrow> item list \<Rightarrow> string option \<Rightarrow> json \<Rightarrow> real \<Rightarrow> json \<Rightarrow> real
     \<Rightarrow> json \<Rightarrow> real \<Rightarrow> string \<Rightarrow> state \<Rightarrow> (failure + json \<times> json) \<times> state" where
  "invoice_txn P W sanitizedItems attachedUser invoiceUser shippingCost shippingInfo
       discountValue paymentInfo useTaxRate invoiceCurrency s =
     (case fails W FindProducts of
        Some e \<Rightarrow> (Inl e, s)
      | None \<Rightarrow>
         (let ids = map (\<lambda>it. ObjectId (productId it)) sanitizedItems;
              productDocs = find_products (products s) ids;
              productMap = map_of productDocs
          in if length productDocs \<noteq> length sanitizedItems
             then (Inl (404, ''Products not found: ''
                      @ join_js '', '' (map productId
                          (filter (\<lambda>it. productMap (productId it) = None) sanitizedItems))), s)
             else
              (case process_items P W invoiceCurrency sanitizedItems productMap s [] 0 of
                 (Inl e, s1) \<Rightarrow> (Inl e, s1)
               | (Inr (invoiceItems, subtotal), s1) \<Rightarrow>
                  (let taxes = taxes_of subtotal useTaxRate;
                       totales = totalsForUi subtotal taxes shippingCost discountValue;
                       orderProducts = orderProducts_of invoiceItems;
                       invoiceNumber = buildInvoiceNumber P W;
                       resumen = resumen_of invoiceUser orderProducts totales shippingInfo
                                   paymentInfo invoiceNumber;
                       orderItemsForDb = orderItemsForDb_of invoiceItems
                   in case save_order P W attachedUser orderItemsForDb resumen s1 of
                        (Inl e, s2) \<Rightarrow> (Inl e, s2)
                      | (Inr orderDoc, s2) \<Rightarrow>
                         (case (case attachedUser of
                                  None \<Rightarrow> (Inr (), s2)
                                | Some uid \<Rightarrow> update_user W uid orderDoc resumen s2) of
                            (Inl e, s3) \<Rightarrow> (Inl e, s3)
                          | (Inr u, s3) \<Rightarrow>
                             (Inr (orderResponse_of orderDoc invoiceNumber invoiceUser
                                     orderProducts totales shippingInfo paymentInfo,
                                   invoicePayload_of W orderDoc invoiceNumber invoiceCurrency
                                     invoiceUser invoiceItems subtotal useTaxRate taxes
                                     shippingCost discountValue), s3))))))"

text \<open>
  \<open>session.withTransaction(callback)\<close>. When the callback throws, or the commit fails, the
  transaction is aborted: the writes made through the session (the saves of products,
  of the order and of the user, each called with \<open>{ session }\<close>) are discarded. The
  counter of the sequence is updated outside the session and keeps its value. The
  driver's retry of a callback that met a transient error is not modelled.
\<close>

definition withTransaction ::
  "world \<Rightarrow> (state \<Rightarrow> (failure + 'a) \<times> state) \<Rightarrow> state \<Rightarrow> (failure + 'a) \<times> state" where
  "withTransaction W callback s =
     (case callback s of
        (Inl e, s') \<Rightarrow> (Inl e, s\<lparr>sequence := sequence s'\<rparr>)
      | (Inr r, s') \<Rightarrow>
         (case fails W Commit of
            Some e \<Rightarrow> (Inl e, s\<lparr>sequence := sequence s'\<rparr>)
          | None \<Rightarrow> (Inr r, s')))"

text \<open>
  The handler of \<open>POST /invoices\<close>: the response and the state it leaves. The mail sent
  after the commit is detached from the request and touches none of the collections; it
  is not part of the model.
\<close>

definition checkout :: "platform \<Rightarrow> config \<Rightarrow> world \<Rightarrow> json \<Rightarrow> state \<Rightarrow> response \<times> state" where
  "checkout P C W req_body s =
     (let body = or_js req_body (Obj []);
          useTaxRate = (case get body ''taxRate'' of Num r \<Rightarrow> r | _ \<Rightarrow> DEFAULT_TAX_RATE);
          invoiceCurrency =
            (case get body ''currency'' of
               Str c \<Rightarrow> if trim c \<noteq> [] then toUpperCase P (trim c) else DEFAULT_CURRENCY
             | _ \<Rightarrow> DEFAULT_CURRENCY)
      in case sanitizeItems P (get body ''products'') of
           Inl itemsError \<Rightarrow> (Error 400 itemsError, s)
         | Inr sanitizedItems \<Rightarrow>
            (case resolve_buyer P W body s of
               Inl (status, message) \<Rightarrow> (Error status message, s)
             | Inr (attachedUser, invoiceUser) \<Rightarrow>
                (let shippingSource = or_js (or_js (get body ''shipping'') (get body ''entrega'')) (Obj []);
                     shippingCost = calculateShippingCost P C shippingSource sanitizedItems;
                     shippingInfo = shippingInfo_of body shippingSource shippingCost;
                     discountValue = discountValue_of P body;
                     paymentSource = or_js (or_js (get body ''payment'') (get body ''pago'')) (Obj []);
                     paymentInfo = paymentInfo_of body paymentSource
                 in case fails W StartSession of
                      Some (status, message) \<Rightarrow> (Error status message, s)
                    | None \<Rightarrow>
                       (case withTransaction W
                               (invoice_txn P W sanitizedItems attachedUser invoiceUser
                                  shippingCost shippingInfo discountValue paymentInfo
                                  useTaxRate invoiceCurrency) s of
                          (Inl (status, message), s') \<Rightarrow> (Error status message, s')
                        | (Inr (orderResponse, invoicePayload), s') \<Rightarrow>
                            (Created orderResponse invoicePayload, s')))))"


section \<open>Invoice rows\<close>

text \<open>
  The rows of the itemised table of \<^verbatim>\<open>renderInvoiceHtml\<close>, with the functions they call.
  The rest of the document (static text and interpolations that all go through
  \<^verbatim>\<open>escapeHtml\<close> or \<^verbatim>\<open>formatMoney\<close>) is not modelled.
\<close>

text \<open>\<^verbatim>\<open>escapeHtml\<close>: a falsy argument gives the empty string; otherwise each of the five
  characters is replaced by its entity.\<close>

definition escape_char :: "char \<Rightarrow> string" where
  \<open>escape_char c =
     (if c = CHR ''&'' then ''&amp;''
      else if c = CHR ''<'' then ''&lt;''
      else if c = CHR ''>'' then ''&gt;''
      else if c = CHR ''"'' then ''&quot;''
      else if c = CHR 0x27 then ''&#39;''
      else [c])\<close>

definition escapeHtml :: "platform \<Rightarrow> json \<Rightarrow> string" where
  "escapeHtml P str = (if \<not> truthy str then [] else concat (map escape_char (String_js P str)))"

text \<open>\<^verbatim>\<open>formatMoney\<close>: \<open>toNumber(value, 0).toFixed(2)\<close>.\<close>

definition formatMoney :: "platform \<Rightarrow> json \<Rightarrow> string" where
  "formatMoney P v = toFixed2 P (toNumber0 P v)"

text \<open>\<open>a * b\<close>. A product that is not finite is only ever read through
  \<open>toNumber(..., 0)\<close>, as \<open>undefined\<close> is, and is modelled by it.\<close>

definition times_js :: "platform \<Rightarrow> json \<Rightarrow> json \<Rightarrow> json" where
  "times_js P a b =
     (case (Number_js P a, Number_js P b) of
        (Some x, Some y) \<Rightarrow> Num (x * y)
      | _ \<Rightarrow> Undefined)"

text \<open>\<^verbatim>\<open>normalizeProducts\<close>: the first of \<open>resumen.productos\<close>, \<open>productos\<close> and
  \<open>items\<close> that is a non-empty array, each element mapped with its index. Reading a key
  of a \<open>null\<close> element throws, which is \<open>None\<close>.\<close>

definition placeholder_name :: "platform \<Rightarrow> nat \<Rightarrow> json" where
  "placeholder_name P idx = Str (''Producto '' @ NumberToString P (of_nat (idx + 1)))"

definition normalize_product :: "platform \<Rightarrow> json \<Rightarrow> nat \<Rightarrow> json option" where
  "normalize_product P entry idx =
     (if entry = Undefined \<or> entry = Null then None
      else Some (Obj
        [(''nombre'', or_js (get entry ''nombre'') (placeholder_name P idx)),
         (''cantidad'', or_js (or_js (get entry ''cantidad'') (get entry ''quantity'')) (Num 0)),
         (''precio'', or_js (or_js (get entry ''precio'') (get entry ''unitPrice'')) (Num 0)),
         (''subtotal'', or_js (or_js (get entry ''subtotal'') (get entry ''lineTotal'')) (Num 0))]))"

definition normalize_item :: "platform \<Rightarrow> json \<Rightarrow> nat \<Rightarrow> json option" where
  "normalize_item P entry idx =
     (if entry = Undefined \<or> entry = Null then None
      else Some (Obj
        [(''nombre'', or_js (or_js (get entry ''nombre'') (get entry ''productName''))
                        (placeholder_name P idx)),
         (''cantidad'', or_js (or_js (get entry ''cantidad'') (get entry ''quantity'')) (Num 0)),
         (''precio'', or_js (or_js (get entry ''precio'') (get entry ''unitPrice'')) (Num 0)),
         (''subtotal'', or_js (get entry ''lineTotal'')
            (times_js P (or_js (get entry ''unitPrice'') (Num 0))
                        (or_js (get entry ''cantidad'') (Num 0))))]))"

definition map_indexed :: "('a \<Rightarrow> nat \<Rightarrow> 'b option) \<Rightarrow> 'a list \<Rightarrow> 'b list option" where
  "map_indexed f xs = those (map (\<lambda>(x, idx). f x idx) (zip xs [0..<length xs]))"

definition nonempty_array :: "json \<Rightarrow> json list option" where
  "nonempty_array v = (case v of Arr xs \<Rightarrow> if xs = [] then None else Some xs | _ \<Rightarrow> None)"

definition normalizeProducts :: "platform \<Rightarrow> json \<Rightarrow> json list option" where
  "normalizeProducts P order =
     (case nonempty_array (get (get order ''resumen'') ''productos'') of
        Some prods \<Rightarrow> map_indexed (normalize_product P) prods
      | None \<Rightarrow>
         (case nonempty_array (get order ''productos'') of
            Some prods \<Rightarrow> map_indexed (normalize_product P) prods
          | None \<Rightarrow>
             (case nonempty_array (get order ''items'') of
                Some entries \<Rightarrow> map_indexed (normalize_item P) entries
              | None \<Rightarrow> Some [])))"

text \<open>One row of the table, and \<open>productRows\<close>: the rows joined, or the row that says
  there is no product. The quantity is interpolated as it is.\<close>

definition product_row :: "platform \<Rightarrow> json \<Rightarrow> string" where
  \<open>product_row P item =
     ''<tr>'' @ [CHR 0x0A]
     @ ''        <td>'' @ escapeHtml P (get item ''nombre'') @ ''</td>'' @ [CHR 0x0A]
     @ ''        <td class="text-center">'' @ String_js P (get item ''cantidad'') @ ''</td>'' @ [CHR 0x0A]
     @ ''        <td class="text-right">$'' @ formatMoney P (get item ''precio'') @ ''</td>'' @ [CHR 0x0A]
     @ ''        <td class="text-right">$'' @ formatMoney P (get item ''subtotal'') @ ''</td>'' @ [CHR 0x0A]
     @ ''      </tr>''\<close>

definition productRows :: "platform \<Rightarrow> json list \<Rightarrow> string" where
  \<open>productRows P productos =
     (let rows = concat (map (product_row P) productos)
      in if rows = [] then ''<tr><td colspan="4" class="text-center">Sin productos</td></tr>''
         else rows)\<close>


section \<open>Vocabulary of the properties\<close>




section \<open>Example data\<close>

text \<open>
  A platform, a store, a world and requests on which the properties are evaluated. The
  platform agrees with JavaScript on what the examples meet: it prints a natural number
  in decimal, formats a number with two decimals, upper-cases the ASCII letters, reads a
  string of decimal digits as a number (a blank string as 0), and casts nothing but the
  strings that \<open>castObjectId\<close> handles itself.
\<close>

definition digit_char :: "nat \<Rightarrow> char" where
  "digit_char d = ''0123456789'' ! d"

fun decimal :: "nat \<Rightarrow> string" where
  "decimal n = (if n < 10 then [digit_char n] else decimal (n div 10) @ [digit_char (n mod 10)])"

declare decimal.simps [simp del]

definition digit_value :: "char \<Rightarrow> nat" where
  "digit_value c = of_char c - 48"

definition is_digit :: "char \<Rightarrow> bool" where
  "is_digit c = (c \<in> set ''0123456789'')"

definition read_digits :: "string \<Rightarrow> real option" where
  "read_digits s =
     (if trim s = [] then Some 0
      else if list_all is_digit (trim s)
      then Some (of_nat (foldl (\<lambda>n c. 10 * n + digit_value c) 0 (trim s)))
      else None)"

definition two_decimals :: "real \<Rightarrow> string" where
  "two_decimals r =
     (let cents = nat \<lfloor>\<bar>r\<bar> * 100 + 1 / 2\<rfloor>
      in (if r < 0 then ''-'' else []) @ decimal (cents div 100) @ ''.''
           @ [digit_char (cents div 10 mod 10), digit_char (cents mod 10)])"

definition upper_char :: "char \<Rightarrow> char" where
  "upper_char c =
     (if 97 \<le> (of_char c :: nat) \<and> (of_char c :: nat) \<le> 122
      then char_of ((of_char c :: nat) - 32) else c)"

definition example_platform :: platform where
  "example_platform =
     \<lparr>StringToNumber = read_digits,
      NumberToString = (\<lambda>r. decimal (nat \<lfloor>r\<rfloor>)),
      toFixed2 = two_decimals,
      toUpperCase = map upper_char,
      castOther = (\<lambda>v. None),
      castErrorMessage = (\<lambda>v. ''Cast to ObjectId failed'')\<rparr>"

definition oid_a :: string where "oid_a = ''aaaaaaaaaaaaaaaaaaaaaaaa''"
definition oid_b :: string where "oid_b = ''bbbbbbbbbbbbbbbbbbbbbbbb''"
definition oid_u :: string where "oid_u = ''cccccccccccccccccccccccc''"
definition oid_o :: string where "oid_o = ''dddddddddddddddddddddddd''"

definition example_state :: state where
  "example_state =
     \<lparr>products = [oid_a \<mapsto> \<lparr>p_nombre = Str ''Cafe'', p_precio = Num 10, p_descuento = Num 10,
                             p_stock = Num 5\<rparr>,
                  oid_b \<mapsto> \<lparr>p_nombre = Str ''Pan'', p_precio = Num 2, p_descuento = Num 0,
                             p_stock = Num 1\<rparr>],
      orders = [],
      users = [oid_u \<mapsto> Obj [(''_id'', Str oid_u), (''nombre'', Str ''Ana''), (''email'', Str ''ana@example.com''),
                               (''cart'', Arr [Str ''x'']), (''orders'', Arr [])]],
      sequence = None\<rparr>"

definition example_world :: world where
  "example_world =
     \<lparr>date_now = 1000, random1000 = 7, new_date = Num 1000, iso_now = ''1970-01-01T00:00:01.000Z'',
      new_oid = oid_o, fails = (\<lambda>op. None)\<rparr>"

definition failing_world :: world where
  "failing_world =
     example_world\<lparr>fails := (\<lambda>op. if op = SaveOrder then Some (500, ''order insert failed'') else None)\<rparr>"

definition line_of :: "string \<Rightarrow> real \<Rightarrow> json" where
  "line_of pid qty = Obj [(''productId'', Str pid), (''quantity'', Num qty)]"

definition req_ok :: json where
  "req_ok = Obj [(''products'', Arr [line_of oid_a 3]), (''userId'', Str oid_u),
                 (''shipping'', Obj [(''costo'', Num (9 / 2))])]"

definition req_plain :: json where
  "req_plain = Obj [(''products'', Arr [line_of oid_a 3]), (''userId'', Str oid_u)]"

definition req_short :: json where
  "req_short = Obj [(''products'', Arr [line_of oid_a 3, line_of oid_b 2]), (''userId'', Str oid_u)]"


definition req_duplicate :: json where
  "req_duplicate = Obj [(''products'', Arr [line_of oid_a 1, line_of oid_a 1]), (''userId'', Str oid_u)]"

definition req_half :: json where
  "req_half = Obj [(''products'', Arr [line_of oid_a (1 / 2)]), (''userId'', Str oid_u)]"

definition req_zero :: json where
  "req_zero = Obj [(''products'', Arr [line_of oid_a 3, line_of oid_b 0]), (''userId'', Str oid_u)]"

definition req_bad_id :: json where
  "req_bad_id = Obj [(''products'', Arr [line_of ''xyz'' 1]), (''userId'', Str oid_u)]"


definition req_unknown_buyer_items :: json where
  "req_unknown_buyer_items = Obj [(''products'', Arr [line_of oid_a 3]), (''userId'', Str oid_b)]"


definition order_with_markup :: json where
  "order_with_markup =
     Obj [(''resumen'', Obj [(''productos'',
       Arr [Obj [(''nombre'', Str ''<b>Cafe</b>''),
                 (''cantidad'', Str ''<script>alert(1)</script>'')]])])]"

abbreviation cafe :: product where
  "cafe \<equiv> \<lparr>p_nombre = Str ''Cafe'', p_precio = Num 10, p_descuento = Num 10, p_stock = Num 5\<rparr>"



section \<open>Evaluation of the examples\<close>

lemmas model_defs = checkout_def withTransaction_def invoice_txn_def process_line_def
  save_order_def update_user_def resolve_buyer_def castObjectId_def pickUserFields_def
  sanitizeItems_def sanitize_item_def item_productId_def item_quantity_def
  calculateShippingCost_def manualCost_def computedShipping_def
  shippingInfo_of_def discountValue_of_def paymentInfo_of_def find_products_def
  totalsForUi_def orderProducts_of_def orderItemsForDb_of_def resumen_of_def
  orderResponse_of_def invoicePayload_of_def buildInvoiceNumber_def padStart3_def
  priceAfterDiscount_def lineTotal_def taxes_of_def total_of_def roundMoney_def
  or_js_def and_js_def nullish_def toNumber_def toNumber0_def trim_def is_space_def
  isValidObjectId_def is_hex_def ObjectId_def hex_lower_def getNextOrderId_def inc_upsert_def
  DEFAULT_CONFIG_def DEFAULT_TAX_RATE_def DEFAULT_CURRENCY_def put_def
  List.map_filter_def

lemmas example_defs = example_platform_def example_state_def example_world_def failing_world_def line_of_def
  oid_a_def oid_b_def oid_u_def oid_o_def digit_char_def


lemma ex_short:
  "checkout P C example_world req_short example_state
     = (Error 400 ''Insufficient stock for Pan'', example_state)"
  by (simp add: model_defs example_defs req_short_def Let_def)

lemma ex_short_body:
  "map_option p_stock (products (snd (process_items P example_world ''USD''
      [\<lparr>productId = oid_a, quantity = 3\<rparr>, \<lparr>productId = oid_b, quantity = 2\<rparr>]
      (products example_state) example_state [] 0)) oid_a) = Some (Num 2)"
  by (simp add: model_defs example_defs Let_def)

lemma ex_ok_created:
  "is_Created (fst (checkout P C example_world req_ok example_state))"
  by (simp add: model_defs example_defs req_ok_def Let_def)


lemma ex_ok_stock:
  "map_option p_stock (products (snd (checkout P C example_world req_ok example_state)) oid_a)
     = Some (Num 2)
   \<and> map_option p_stock (products (snd (checkout P C example_world req_ok example_state)) oid_b)
     = Some (Num 1)"
  by (simp add: model_defs example_defs req_ok_def Let_def)


lemma ex_fail_save:
  "fst (checkout P C failing_world req_ok example_state) = Error 500 ''order insert failed''
   \<and> sequence (snd (checkout P C failing_world req_ok example_state)) = Some 30"
  by (simp add: model_defs example_defs req_ok_def Let_def)


lemma ex_plain_totals:
  "map (\<lambda>orderDoc. get (get orderDoc ''resumen'') ''totales'')
     (orders (snd (checkout P C example_world req_plain example_state)))
   = [Obj [(''subtotal'', Num 27), (''iva'', Num (81 / 20)), (''envio'', Num 0),
           (''discount'', Num 0), (''total'', Num (621 / 20))]]"
  by (simp add: model_defs example_defs req_plain_def Let_def)

lemma ex_duplicate:
  "checkout P C example_world req_duplicate example_state
     = (Error 404 ''Products not found: '', example_state)"
  by (simp add: model_defs example_defs req_duplicate_def Let_def)

lemma ex_half:
  "sanitizeItems P (get req_half ''products'') = Inr [\<lparr>productId = oid_a, quantity = 0\<rparr>]
   \<and> map (\<lambda>orderDoc. get orderDoc ''items'')
       (orders (snd (checkout P C example_world req_half example_state)))
     = [Arr [Obj [(''productId'', Str oid_a), (''cantidad'', Num 0), (''unitPrice'', Num 9),
                  (''lineTotal'', Num 0), (''currency'', Str ''USD'')]]]"
  by (simp add: model_defs example_defs req_half_def Let_def)

lemma ex_zero:
  "checkout P C W req_zero s = (Error 400 (''Invalid quantity for product '' @ oid_b), s)"
  by (simp add: model_defs example_defs req_zero_def Let_def)

lemma ex_bad_id:
  "checkout P C W req_bad_id s = (Error 400 ''Invalid productId format: xyz'', s)"
  by (simp add: model_defs example_defs req_bad_id_def Let_def)


lemma ex_unknown_buyer_items:
  "checkout P C example_world req_unknown_buyer_items example_state
     = (Error 404 ''User not found'', example_state)"
  by (simp add: model_defs example_defs req_unknown_buyer_items_def Let_def)



section \<open>Properties of the order sequence\<close>

lemma getNextOrderId_value:
  "getNextOrderId c = (max 30 (inc_upsert c), Some (max 30 (inc_upsert c)))"
  by (simp add: getNextOrderId_def Let_def max_def)

lemma allocations_above:
  "x \<in> set (allocations n (Some v)) \<Longrightarrow> v < x"
proof (induction n arbitrary: v)
  case 0
  then show ?case by simp
next
  case (Suc n)
  have step: "getNextOrderId (Some v) = (max 30 (v + 1), Some (max 30 (v + 1)))"
    by (simp add: getNextOrderId_value inc_upsert_def)
  from Suc.prems step
  have "x = max 30 (v + 1) \<or> x \<in> set (allocations n (Some (max 30 (v + 1))))"
    by simp
  then show ?case
  proof
    assume "x = max 30 (v + 1)"
    then show ?thesis by simp
  next
    assume "x \<in> set (allocations n (Some (max 30 (v + 1))))"
    then have "max 30 (v + 1) < x" by (rule Suc.IH)
    then show ?thesis by simp
  qed
qed

lemma allocations_increasing:
  "sorted_wrt (<) (allocations n c)"
proof (induction n arbitrary: c)
  case 0
  then show ?case by simp
next
  case (Suc n)
  obtain v where step: "getNextOrderId c = (v, Some v)"
    by (simp add: getNextOrderId_value)
  have "\<forall>x \<in> set (allocations n (Some v)). v < x"
    using allocations_above by blast
  with step Suc.IH [of "Some v"] show ?case by simp
qed

text \<open>
  C6. The allocator returns the incremented counter, or exactly 30 when the incremented
  value is below 30, and stores what it returns. The first allocation on a fresh counter
  (no document yet, or a document at the seed 29) returns 30. In every run of
  allocations made one after the other, from any counter, the identifiers strictly
  increase, so none repeats.
\<close>

theorem nextOrderId_floor_and_monotone:
  "fst (getNextOrderId (Some v)) = (if v + 1 < 30 then 30 else v + 1)
   \<and> snd (getNextOrderId c) = Some (fst (getNextOrderId c))
   \<and> fst (getNextOrderId None) = 30
   \<and> fst (getNextOrderId (Some 29)) = 30
   \<and> sorted_wrt (<) (allocations n c)
   \<and> distinct (allocations n c)"
proof -
  have "distinct (allocations n c)"
    using allocations_increasing [of n c] by (simp add: strict_sorted_iff)
  then show ?thesis
    using allocations_increasing [of n c]
    by (simp add: getNextOrderId_def inc_upsert_def Let_def)
qed

theorem nextOrderId_floor_and_monotone_witness:
  "fst (getNextOrderId (Some 4)) = 30
   \<and> fst (getNextOrderId (Some 41)) = 42
   \<and> allocations 3 None = [30, 31, 32]
   \<and> sorted_wrt (<) (allocations 3 None)
   \<and> distinct (allocations 3 None)"
  using nextOrderId_floor_and_monotone [of 4 None 3]
    nextOrderId_floor_and_monotone [of 41 None 3]
  by (simp add: getNextOrderId_def inc_upsert_def Let_def numeral_3_eq_3)


section \<open>Properties of the item validator\<close>



lemma sanitize_loop_Inr_iff:
  "(\<exists>its. sanitize_loop P xs = Inr its) \<longleftrightarrow> (\<forall>x\<in>set xs. \<exists>it. sanitize_item P x = Inr it)"
  by (induction xs) (auto split: sum.splits)

lemma sanitize_loop_map:
  "sanitize_loop P xs = Inr its \<Longrightarrow> map (sanitize_item P) xs = map Inr its"
  by (induction xs arbitrary: its) (auto split: sum.splits)




text \<open>
  C10. A quantity strictly between 0 and 1 passes the check \<open>quantity <= 0\<close> and is then
  floored: the canonical item has quantity 0, and the checkout persists an order with
  that line.
\<close>

theorem fractional_quantity_floors_to_zero:
  "sanitizeItems P (get req_half ''products'') = Inr [\<lparr>productId = oid_a, quantity = 0\<rparr>]
   \<and> is_Created (fst (checkout P C example_world req_half example_state))
   \<and> map (\<lambda>orderDoc. get orderDoc ''items'')
       (orders (snd (checkout P C example_world req_half example_state)))
     = [Arr [Obj [(''productId'', Str oid_a), (''cantidad'', Num 0), (''unitPrice'', Num 9),
                  (''lineTotal'', Num 0), (''currency'', Str ''USD'')]]]"
  using ex_half [of P C] by (simp add: model_defs example_defs req_half_def Let_def)


section \<open>Properties of the pricing functions\<close>

lemma roundMoney_cents: "roundMoney (of_int n / 100) = of_int n / 100"
  by (simp add: roundMoney_def)

lemma manualCost_absent:
  "get src ''costo'' = Undefined \<Longrightarrow> get src ''cost'' = Undefined
     \<Longrightarrow> get src ''shippingFee'' = Undefined \<Longrightarrow> manualCost P src = Some 0"
  by (simp add: manualCost_def nullish_def toNumber_def)

lemma shipping_manual_cost:
  "manualCost P src = Some m \<Longrightarrow> 0 \<le> m \<Longrightarrow> calculateShippingCost P C src items = roundMoney m"
  by (simp add: calculateShippingCost_def)

lemma shipping_computed:
  "manualCost P src = None \<or> (\<exists>m. manualCost P src = Some m \<and> m < 0)
     \<Longrightarrow> calculateShippingCost P C src items = computedShipping C items"
  by (auto simp: calculateShippingCost_def)

text \<open>When the default formula is reached, it is the one of the specification: with the
  default constants its value is a whole number of cents, which rounding leaves.\<close>

lemma foldl_quantity: "foldl (\<lambda>sum it. sum + quantity it) a items = a + sum_list (map quantity items)"
  by (induction items arbitrary: a) auto

lemma computedShipping_default:
  "computedShipping DEFAULT_CONFIG items
     = min 20 (7 / 2 + max 0 (of_int (sum_list (map quantity items)) - 1) * (1 / 2))"
proof -
  define k where "k = max 0 (sum_list (map quantity items) - 1)"
  define v :: real where "v = min 20 (7 / 2 + of_int k * (1 / 2))"
  have m: "max 0 (of_int (sum_list (map quantity items)) - 1) = (of_int k :: real)"
    by (simp add: k_def max_def)
  have "v = of_int (min 2000 (350 + 50 * k)) / 100"
    by (simp add: v_def min_def)
  then have "roundMoney v = v"
    by (simp only: roundMoney_cents)
  then show ?thesis
    by (simp add: computedShipping_def DEFAULT_CONFIG_def Let_def foldl_quantity m v_def)
qed

text \<open>
  C4. With no manual cost in the request, \<open>costo ?? cost ?? shippingFee ?? null\<close> is
  \<open>null\<close>, and \<open>Number(null)\<close> is 0, a finite non-negative number: the shipping cost is
  0 and the default formula is not reached. For 3 units the formula gives 4.50; the line
  total 27.00 and the taxes 4.05 are as stated; the order total is 31.05.
\<close>

theorem shipping_default_not_applied:
  "manualCost P (Obj []) = Some 0
   \<and> calculateShippingCost P DEFAULT_CONFIG (Obj []) [\<lparr>productId = pid, quantity = 3\<rparr>] = 0
   \<and> computedShipping DEFAULT_CONFIG [\<lparr>productId = pid, quantity = 3\<rparr>] = 9 / 2
   \<and> lineTotal 10 10 3 = 27
   \<and> taxes_of 27 DEFAULT_TAX_RATE = 81 / 20
   \<and> map (\<lambda>orderDoc. get (get orderDoc ''resumen'') ''totales'')
       (orders (snd (checkout P DEFAULT_CONFIG example_world req_plain example_state)))
     = [Obj [(''subtotal'', Num 27), (''iva'', Num (81 / 20)), (''envio'', Num 0),
             (''discount'', Num 0), (''total'', Num (621 / 20))]]"
  using ex_plain_totals [of P DEFAULT_CONFIG]
  by (simp add: manualCost_def calculateShippingCost_def computedShipping_def nullish_def
      toNumber_def lineTotal_def priceAfterDiscount_def taxes_of_def roundMoney_def
      DEFAULT_CONFIG_def DEFAULT_TAX_RATE_def)


section \<open>Properties of the checkout\<close>


lemma process_line_frame:
  "process_line P W cur it pm s = (r, pm', s')
     \<Longrightarrow> orders s' = orders s \<and> users s' = users s \<and> sequence s' = sequence s"
  by (auto simp: process_line_def Let_def split: option.splits if_splits)

lemma process_items_frame:
  "process_items P W cur its pm s acc sub = (r, s')
     \<Longrightarrow> orders s' = orders s \<and> users s' = users s \<and> sequence s' = sequence s"
proof (induction its arbitrary: pm s acc sub)
  case Nil
  then show ?case by simp
next
  case (Cons it its)
  obtain r1 pm1 s1 where step: "process_line P W cur it pm s = (r1, pm1, s1)"
    by (cases "process_line P W cur it pm s") auto
  note fr = process_line_frame [OF step]
  show ?case
  proof (cases r1)
    case (Inl e)
    with Cons.prems step fr show ?thesis by simp
  next
    case (Inr b)
    obtain line lt where b: "b = (line, lt)" by (cases b)
    from Cons.prems step Inr b
    have "process_items P W cur its pm1 s1 (acc @ [line]) (roundMoney (sub + lt)) = (r, s')"
      by simp
    from Cons.IH [OF this] fr show ?thesis by simp
  qed
qed



lemma save_order_frame:
  "save_order P W au items resumen s = (r, s')
     \<Longrightarrow> products s' = products s \<and> users s' = users s"
  by (auto simp: save_order_def Let_def split: option.splits prod.splits)

lemma save_order_orders:
  "save_order P W au items resumen s = (Inr orderDoc, s')
     \<Longrightarrow> orders s' = orders s @ [orderDoc] \<and> get orderDoc ''resumen'' = resumen"
  by (auto simp: save_order_def Let_def split: option.splits prod.splits)

lemma update_user_frame:
  "update_user W uid orderDoc resumen s = (r, s')
     \<Longrightarrow> products s' = products s \<and> orders s' = orders s \<and> sequence s' = sequence s"
  by (auto simp: update_user_def Let_def split: option.splits json.splits)



lemma invoice_txn_success:
  assumes "invoice_txn P W its au iu shc shi dv pay rate cur s = (Inr out, s')"
  shows "\<exists>lines sub s1 orderDoc s2.
    fails W FindProducts = None
    \<and> length (find_products (products s) (map (\<lambda>it. ObjectId (productId it)) its)) = length its
    \<and> process_items P W cur its
         (map_of (find_products (products s) (map (\<lambda>it. ObjectId (productId it)) its))) s [] 0
        = (Inr (lines, sub), s1)
    \<and> save_order P W au (orderItemsForDb_of lines)
         (resumen_of iu (orderProducts_of lines) (totalsForUi sub (taxes_of sub rate) shc dv)
            shi pay (buildInvoiceNumber P W)) s1 = (Inr orderDoc, s2)
    \<and> products s' = products s1
    \<and> orders s' = orders s @ [orderDoc]"
proof -
  let ?pm = "map_of (find_products (products s) (map (\<lambda>it. ObjectId (productId it)) its))"
  let ?n = "length (find_products (products s) (map (\<lambda>it. ObjectId (productId it)) its))"
  from assms have nf: "fails W FindProducts = None"
    by (cases "fails W FindProducts") (simp_all add: invoice_txn_def)
  from assms nf have len: "?n = length its"
    by (cases "?n = length its") (simp_all add: invoice_txn_def Let_def)
  obtain r1 s1 where loop: "process_items P W cur its ?pm s [] 0 = (r1, s1)"
    by (cases "process_items P W cur its ?pm s [] 0") auto
  from assms nf len loop obtain lines sub where r1: "r1 = Inr (lines, sub)"
    by (cases r1) (auto simp: invoice_txn_def Let_def)
  let ?res = "resumen_of iu (orderProducts_of lines) (totalsForUi sub (taxes_of sub rate) shc dv)
            shi pay (buildInvoiceNumber P W)"
  obtain r2 s2 where sv: "save_order P W au (orderItemsForDb_of lines) ?res s1 = (r2, s2)"
    by (cases "save_order P W au (orderItemsForDb_of lines) ?res s1") auto
  from assms nf len loop r1 sv obtain orderDoc where r2: "r2 = Inr orderDoc"
    by (cases r2) (auto simp: invoice_txn_def Let_def)
  note fr1 = process_items_frame [OF loop]
  note fr2 = save_order_frame [OF sv]
  from sv r2 have o2: "orders s2 = orders s1 @ [orderDoc]"
    using save_order_orders by blast
  have "products s' = products s2 \<and> orders s' = orders s2"
  proof (cases au)
    case None
    with assms nf len loop r1 sv r2 show ?thesis
      by (simp add: invoice_txn_def Let_def)
  next
    case (Some uid)
    obtain r3 s3 where up: "update_user W uid orderDoc ?res s2 = (r3, s3)"
      by (cases "update_user W uid orderDoc ?res s2") auto
    note fr3 = update_user_frame [OF up]
    from assms nf len loop r1 sv r2 Some up have "s' = s3"
      by (cases r3) (simp_all add: invoice_txn_def Let_def)
    with fr3 show ?thesis by simp
  qed
  with fr1 fr2 o2 nf len loop r1 sv r2 show ?thesis by auto
qed

lemma checkout_created:
  assumes "checkout P C W req_body s = (Created resp payload, s')"
  shows "\<exists>its au iu shc shi dv pay rate cur.
    sanitizeItems P (get (or_js req_body (Obj [])) ''products'') = Inr its
    \<and> invoice_txn P W its au iu shc shi dv pay rate cur s = (Inr (resp, payload), s')"
proof -
  let ?body = "or_js req_body (Obj [])"
  from assms obtain its where its: "sanitizeItems P (get ?body ''products'') = Inr its"
    by (cases "sanitizeItems P (get ?body ''products'')") (simp_all add: checkout_def Let_def)
  from assms its obtain au iu where buyer: "resolve_buyer P W ?body s = Inr (au, iu)"
    by (cases "resolve_buyer P W ?body s")
      (auto simp: checkout_def Let_def split: prod.splits)
  from assms its buyer have ns: "fails W StartSession = None"
    by (cases "fails W StartSession") (auto simp: checkout_def Let_def split: prod.splits)
  from assms its buyer ns show ?thesis
    by (simp add: checkout_def withTransaction_def Let_def
        split: sum.splits option.splits prod.splits) blast
qed

lemma checkout_error_rollback:
  assumes "checkout P C W req_body s = (Error st msg, s')"
  shows "products s' = products s \<and> orders s' = orders s \<and> users s' = users s"
  using assms
  by (auto simp: checkout_def withTransaction_def Let_def
      split: sum.splits option.splits prod.splits)

lemma find_products_length:
  "length (find_products store ids) = length (filter (\<lambda>i. store i \<noteq> None) (remdups ids))"
  by (simp add: find_products_def List.map_filter_def)

lemma find_products_complete_iff:
  "length (find_products store ids) = length ids
     \<longleftrightarrow> distinct ids \<and> (\<forall>i\<in>set ids. store i \<noteq> None)"
proof
  assume eq: "length (find_products store ids) = length ids"
  have a: "length (filter (\<lambda>i. store i \<noteq> None) (remdups ids)) \<le> length (remdups ids)"
    by (rule length_filter_le)
  have b: "length (remdups ids) \<le> length ids"
    by (rule length_remdups_leq)
  from eq a b have c: "length (remdups ids) = length ids"
    and d: "length (filter (\<lambda>i. store i \<noteq> None) (remdups ids)) = length (remdups ids)"
    by (simp_all add: find_products_length)
  from c have dist: "distinct ids"
    by (metis distinct_remdups length_remdups_eq)
  from d have "filter (\<lambda>i. store i \<noteq> None) (remdups ids) = remdups ids"
    by (metis length_filter_less less_irrefl filter_True)
  then have "\<forall>i\<in>set (remdups ids). store i \<noteq> None"
    by (metis (mono_tags, lifting) filter_id_conv)
  with dist show "distinct ids \<and> (\<forall>i\<in>set ids. store i \<noteq> None)" by simp
next
  assume "distinct ids \<and> (\<forall>i\<in>set ids. store i \<noteq> None)"
  then show "length (find_products store ids) = length ids"
    by (simp add: find_products_length distinct_remdups_id)
qed





text \<open>
  C1. A checkout that answers with an error leaves every product, the list of orders and
  every user as they were, whatever step failed: the validation, the buyer, the session,
  the lookup, a stock check, a save, the order identifier, the user update or the
  commit. A checkout that answers 201 has added exactly one order.
\<close>

theorem checkout_atomic:
  "(fst (checkout P C W req_body s) = Error st msg \<longrightarrow>
      products (snd (checkout P C W req_body s)) = products s
      \<and> orders (snd (checkout P C W req_body s)) = orders s
      \<and> users (snd (checkout P C W req_body s)) = users s)
   \<and> (fst (checkout P C W req_body s) = Created resp payload \<longrightarrow>
      (\<exists>orderDoc. orders (snd (checkout P C W req_body s)) = orders s @ [orderDoc]))"
proof (intro conjI impI)
  assume "fst (checkout P C W req_body s) = Error st msg"
  then have "checkout P C W req_body s = (Error st msg, snd (checkout P C W req_body s))"
    by (metis prod.collapse)
  from checkout_error_rollback [OF this]
  show "products (snd (checkout P C W req_body s)) = products s"
    and "orders (snd (checkout P C W req_body s)) = orders s"
    and "users (snd (checkout P C W req_body s)) = users s"
    by simp_all
next
  assume "fst (checkout P C W req_body s) = Created resp payload"
  then have "checkout P C W req_body s = (Created resp payload, snd (checkout P C W req_body s))"
    by (metis prod.collapse)
  from checkout_created [OF this] obtain its au iu shc shi dv pay rate cur where
    "invoice_txn P W its au iu shc shi dv pay rate cur s
       = (Inr (resp, payload), snd (checkout P C W req_body s))"
    by blast
  from invoice_txn_success [OF this]
  show "\<exists>orderDoc. orders (snd (checkout P C W req_body s)) = orders s @ [orderDoc]"
    by blast
qed

theorem checkout_atomic_witness:
  "fst (checkout example_platform DEFAULT_CONFIG example_world req_short example_state)
      = Error 400 ''Insufficient stock for Pan''
   \<and> map_option p_stock (products (snd (process_items example_platform example_world ''USD''
        [\<lparr>productId = oid_a, quantity = 3\<rparr>, \<lparr>productId = oid_b, quantity = 2\<rparr>]
        (products example_state) example_state [] 0)) oid_a) = Some (Num 2)
   \<and> products (snd (checkout example_platform DEFAULT_CONFIG example_world req_short example_state))
      = products example_state
   \<and> orders (snd (checkout example_platform DEFAULT_CONFIG example_world req_short example_state)) = []
   \<and> users (snd (checkout example_platform DEFAULT_CONFIG example_world req_short example_state))
      = users example_state
   \<and> fst (checkout example_platform DEFAULT_CONFIG failing_world req_ok example_state)
      = Error 500 ''order insert failed''
   \<and> products (snd (checkout example_platform DEFAULT_CONFIG failing_world req_ok example_state))
      = products example_state
   \<and> orders (snd (checkout example_platform DEFAULT_CONFIG failing_world req_ok example_state)) = []
   \<and> users (snd (checkout example_platform DEFAULT_CONFIG failing_world req_ok example_state))
      = users example_state
   \<and> sequence (snd (checkout example_platform DEFAULT_CONFIG failing_world req_ok example_state))
      = Some 30
   \<and> is_Created (fst (checkout example_platform DEFAULT_CONFIG example_world req_ok example_state))
   \<and> length (orders (snd (checkout example_platform DEFAULT_CONFIG example_world req_ok example_state))) = 1"
proof -
  have short: "fst (checkout example_platform DEFAULT_CONFIG example_world req_short example_state)
      = Error 400 ''Insufficient stock for Pan''"
    by (simp add: ex_short)
  have failing: "fst (checkout example_platform DEFAULT_CONFIG failing_world req_ok example_state)
      = Error 500 ''order insert failed''"
    by (simp add: ex_fail_save)
  have created: "is_Created (fst (checkout example_platform DEFAULT_CONFIG example_world req_ok example_state))"
    by (rule ex_ok_created)
  then obtain resp payload where ok:
    "fst (checkout example_platform DEFAULT_CONFIG example_world req_ok example_state) = Created resp payload"
    by (cases "fst (checkout example_platform DEFAULT_CONFIG example_world req_ok example_state)") auto
  have none: "orders example_state = []"
    by (simp add: example_state_def)
  from checkout_atomic [of example_platform DEFAULT_CONFIG example_world req_short example_state
      400 "''Insufficient stock for Pan''"] short
  have r1: "products (snd (checkout example_platform DEFAULT_CONFIG example_world req_short example_state))
      = products example_state
    \<and> orders (snd (checkout example_platform DEFAULT_CONFIG example_world req_short example_state)) = []
    \<and> users (snd (checkout example_platform DEFAULT_CONFIG example_world req_short example_state))
      = users example_state"
    by (simp add: none)
  from checkout_atomic [of example_platform DEFAULT_CONFIG failing_world req_ok example_state
      500 "''order insert failed''"] failing
  have r2: "products (snd (checkout example_platform DEFAULT_CONFIG failing_world req_ok example_state))
      = products example_state
    \<and> orders (snd (checkout example_platform DEFAULT_CONFIG failing_world req_ok example_state)) = []
    \<and> users (snd (checkout example_platform DEFAULT_CONFIG failing_world req_ok example_state))
      = users example_state"
    by (simp add: none)
  from checkout_atomic [of example_platform DEFAULT_CONFIG example_world req_ok example_state
      _ _ resp payload] ok
  have r3: "length (orders (snd (checkout example_platform DEFAULT_CONFIG example_world req_ok example_state))) = 1"
    by (auto simp: none)
  from short failing created r1 r2 r3 ex_short_body [of example_platform]
    ex_fail_save [of example_platform DEFAULT_CONFIG]
  show ?thesis by simp
qed










lemma batch_lookup_fails:
  assumes "fails W FindProducts = None"
    and "\<not> (distinct (map (\<lambda>it. ObjectId (productId it)) its)
            \<and> (\<forall>it\<in>set its. products s (ObjectId (productId it)) \<noteq> None))"
  shows "invoice_txn P W its au iu shc shi dv pay rate cur s
     = (Inl (404, ''Products not found: '' @ join_js '', '' (map productId
          (filter (\<lambda>it. map_of (find_products (products s)
              (map (\<lambda>it. ObjectId (productId it)) its)) (productId it) = None) its))), s)"
proof -
  from assms(2)
  have "length (find_products (products s) (map (\<lambda>it. ObjectId (productId it)) its)) \<noteq> length its"
    using find_products_complete_iff [of "products s" "map (\<lambda>it. ObjectId (productId it)) its"]
    by auto
  with assms(1) show ?thesis by (simp add: invoice_txn_def Let_def)
qed

text \<open>
  C3. The batch lookup fails when the number of documents found differs from the number
  of lines. Two lines that name the same existing product give one document for two
  lines: the checkout fails with status 404 and a message that names no product, though
  every requested product exists and its stock covers both lines.
\<close>

theorem duplicate_lines_not_found:
  "products example_state oid_a = Some cafe
   \<and> sanitizeItems P (get req_duplicate ''products'')
       = Inr [\<lparr>productId = oid_a, quantity = 1\<rparr>, \<lparr>productId = oid_a, quantity = 1\<rparr>]
   \<and> checkout P C example_world req_duplicate example_state
       = (Error 404 ''Products not found: '', example_state)"
  using ex_duplicate [of P C] by (simp add: model_defs example_defs req_duplicate_def Let_def)









section \<open>Properties of the invoice rows\<close>

lemma escapeHtml_safe:
  "set (escapeHtml P v) \<inter> {CHR ''<'', CHR ''>'', CHR 0x22, CHR 0x27} = {}"
  by (auto simp: escapeHtml_def escape_char_def split: if_splits)

text \<open>
  C9. The name of a product goes through \<^verbatim>\<open>escapeHtml\<close>; its quantity is interpolated
  as it is stored. An order whose summary holds a quantity that is a string of markup
  renders a row with that markup in it.
\<close>

theorem quantity_cell_not_escaped:
  \<open>map_option (productRows P) (normalizeProducts P order_with_markup) = Some (
     ''<tr>'' @ [CHR 0x0A]
     @ ''        <td>&lt;b&gt;Cafe&lt;/b&gt;</td>'' @ [CHR 0x0A]
     @ ''        <td class="text-center"><script>alert(1)</script></td>'' @ [CHR 0x0A]
     @ ''        <td class="text-right">$'' @ toFixed2 P 0 @ ''</td>'' @ [CHR 0x0A]
     @ ''        <td class="text-right">$'' @ toFixed2 P 0 @ ''</td>'' @ [CHR 0x0A]
     @ ''      </tr>'')\<close>
  by (simp add: order_with_markup_def normalizeProducts_def nonempty_array_def map_indexed_def
      normalize_product_def productRows_def product_row_def escapeHtml_def escape_char_def
      formatMoney_def toNumber0_def toNumber_def or_js_def placeholder_name_def Let_def)

end
